theory Spec2Isabelle
  imports Complex_Main "HOL-Library.Word" "HOL-Library.List_Lexorder" "HOL-Library.Multiset"
begin

section \<open>Data model of parser\_windows.py\<close>

text \<open>
  The script reads a decompressed NASDAQ ITCH 5.0 stream: a one-byte message type, then a
  body whose length is looked up in a table. Bodies of type \<open>P\<close> (non-cross trade) are
  decoded and buffered; when the hour of a trade is the successor of the buffered hour, the
  buffer is turned into a table of volume weighted average prices and written out.

  Bytes are 8-bit words, a Python \<open>bytes\<close> object is a list of them, and a Python
  \<open>str\<close> is the list of its code points. Python integers are unbounded.
\<close>

type_synonym byte = "8 word"
type_synonym bytes = "byte list"
type_synonym pystr = "nat list"

definition bytes_of :: "string \<Rightarrow> bytes" where
  "bytes_of s = map (\<lambda>c. of_nat (of_char c)) s"

definition str_of :: "string \<Rightarrow> pystr" where
  "str_of s = map of_char s"

text \<open>
  The exceptions. \<open>StructError\<close> is \<open>struct.error\<close> (raised by \<open>struct.unpack\<close> on
  a buffer of the wrong size), \<open>ValueError\<close> is what \<open>int\<close> raises on a string that
  is not a number, \<open>AttributeError\<close> is raised by the lookup of an attribute that an
  object does not have. \<open>KeyError\<close> and \<open>UnicodeDecodeError\<close> are caught where they
  arise and are branches of the functions below. \<open>TruncatedStreamError\<close> and
  \<open>UnknownMessageTypeError\<close> are the error kinds named by the design document; no
  path of the script constructs them.
\<close>

datatype error =
    StructError
  | ValueError
  | AttributeError
  | TruncatedStreamError
  | UnknownMessageTypeError

text \<open>
  The columns \<open>Total\<close> and \<open>VWAP\<close> hold 64-bit floats. The model computes with exact
  rationals where the script computes with binary floating point, and keeps the three
  non-finite values, since a float division by zero does not raise in pandas.
\<close>

datatype float64 = Finite rat | PosInf | NegInf | NaN

text \<open>A buffered trade is the list \<open>[stock, shares, price]\<close>.\<close>

type_synonym row = "pystr \<times> nat \<times> rat"

text \<open>
  The \<open>Parser\<close> object. \<open>binary_data\<close> is the unread rest of the decompressed file and
  \<open>closed\<close> whether \<open>close\<close> was called on it. \<open>emitted\<close> is not a field of the
  class: it records, in order, what \<open>process_trade\<close> writes out (one file
  \<open><hour>00.txt\<close> and one printed table per flush) as the hour label and the rows.
\<close>

record parser =
  binary_data :: bytes
  closed :: bool
  msg_size_table :: "bytes \<rightharpoonup> nat"
  data :: "row list"
  currentHour :: "nat option"
  emitted :: "(nat \<times> (pystr \<times> float64) list) list"

type_synonym 'a raises = "(error \<times> parser) + 'a"

definition init :: "(bytes \<rightharpoonup> nat) \<Rightarrow> bytes \<Rightarrow> parser" where
  "init msg_sizes contents =
     \<lparr>binary_data = contents, closed = False, msg_size_table = msg_sizes,
      data = [], currentHour = None, emitted = []\<rparr>"

subsection \<open>The byte source\<close>

text \<open>\<open>read(n)\<close> returns up to \<open>n\<close> bytes: fewer at the end of the file, none after it.\<close>

definition read_binary_msg_type :: "parser \<Rightarrow> bytes \<times> parser" where
  "read_binary_msg_type st =
     (take 1 (binary_data st), st\<lparr>binary_data := drop 1 (binary_data st)\<rparr>)"

definition read_binary :: "parser \<Rightarrow> nat \<Rightarrow> bytes \<times> parser" where
  "read_binary st msg_size =
     (take msg_size (binary_data st), st\<lparr>binary_data := drop msg_size (binary_data st)\<rparr>)"

definition close_binary :: "parser \<Rightarrow> parser" where
  "close_binary st = st\<lparr>closed := True\<rparr>"

subsection \<open>convert\_time\<close>

text \<open>
  \<open>datetime.fromtimestamp(timestamp / 1e9)\<close> reads its argument as seconds since the
  Unix epoch, rounds it to microseconds (half to even) and gives the local time of that
  instant; \<open>strftime('%H')\<close> is the hour of that local time in two digits. The local
  time depends on the time zone of the process: \<open>utcoffset\<close> is its offset from UTC in
  seconds. The quotient \<open>timestamp / 1e9\<close> is taken exactly here; it differs from
  the float quotient by less than a ten-thousandth of a microsecond, so the two round to
  the same microsecond except on an exact tie. Errors of the platform's time functions
  are outside the model.
\<close>

definition round_half_even :: "rat \<Rightarrow> int" where
  "round_half_even q =
     (let f = \<lfloor>q\<rfloor>; d = q - of_int f
      in if d < 1 / 2 then f
         else if 1 / 2 < d then f + 1
         else if even f then f else f + 1)"

definition digit_char :: "nat \<Rightarrow> char" where
  "digit_char n = char_of (48 + n)"

definition strftime_H :: "nat \<Rightarrow> string" where
  "strftime_H h = [digit_char (h div 10), digit_char (h mod 10)]"

definition convert_time :: "int \<Rightarrow> nat \<Rightarrow> string" where
  "convert_time utcoffset timestamp =
     (let us = round_half_even (of_int (int timestamp) / 1000);
          local_us = us + utcoffset * 1000000;
          hour = nat ((local_us div 3600000000) mod 24)
      in strftime_H hour)"

text \<open>\<open>int(s)\<close> on a string of decimal digits; \<open>None\<close> stands for \<open>ValueError\<close>.\<close>

definition is_digit :: "char \<Rightarrow> bool" where
  "is_digit c = (48 \<le> (of_char c :: nat) \<and> (of_char c :: nat) \<le> 57)"

definition py_int :: "string \<Rightarrow> nat option" where
  "py_int s =
     (if s \<noteq> [] \<and> list_all is_digit s
      then Some (foldl (\<lambda>a c. 10 * a + (of_char c - 48)) 0 s)
      else None)"

subsection \<open>parse\<close>

text \<open>
  \<open>struct.unpack('>4s6sQcI8sIQ', msg)\<close>: big-endian, no padding, 4 + 6 + 8 + 1 + 4 + 8 +
  4 + 8 = 43 bytes; a buffer of any other length raises \<open>struct.error\<close>.
\<close>

definition be_uint :: "bytes \<Rightarrow> nat" where
  "be_uint bs = foldl (\<lambda>a b. 256 * a + unat b) 0 bs"

record unpacked =
  f0 :: bytes
  f1 :: bytes
  f2 :: nat
  f3 :: bytes
  f4 :: nat
  f5 :: bytes
  f6 :: nat
  f7 :: nat

definition unpack_trade :: "bytes \<Rightarrow> unpacked option" where
  "unpack_trade msg =
     (if length msg \<noteq> 43 then None
      else Some \<lparr>f0 = take 4 msg,
                 f1 = take 6 (drop 4 msg),
                 f2 = be_uint (take 8 (drop 10 msg)),
                 f3 = take 1 (drop 18 msg),
                 f4 = be_uint (take 4 (drop 19 msg)),
                 f5 = take 8 (drop 23 msg),
                 f6 = be_uint (take 4 (drop 31 msg)),
                 f7 = be_uint (take 8 (drop 35 msg))\<rparr>)"

text \<open>\<open>bytes.strip()\<close> removes ASCII whitespace at both ends.\<close>

definition is_space :: "byte \<Rightarrow> bool" where
  "is_space b = (b = 0x20 \<or> b = 0x09 \<or> b = 0x0A \<or> b = 0x0B \<or> b = 0x0C \<or> b = 0x0D)"

definition strip :: "bytes \<Rightarrow> bytes" where
  "strip bs = rev (dropWhile is_space (rev (dropWhile is_space bs)))"

text \<open>
  \<open>decode("utf-8")\<close> in strict mode; \<open>None\<close> stands for \<open>UnicodeDecodeError\<close>.
  Overlong forms, surrogates and values above U+10FFFF are rejected.
\<close>

definition is_cont :: "byte \<Rightarrow> bool" where
  "is_cont b = (0x80 \<le> unat b \<and> unat b \<le> 0xBF)"

definition cont :: "byte \<Rightarrow> nat" where
  "cont b = unat b - 0x80"

fun utf8_decode :: "bytes \<Rightarrow> pystr option" where
  "utf8_decode [] = Some []"
| "utf8_decode (b0 # bs) =
     (let n0 = unat b0 in
      if n0 < 0x80 then map_option ((#) n0) (utf8_decode bs)
      else if 0xC2 \<le> n0 \<and> n0 \<le> 0xDF then
        (case bs of
           b1 # r \<Rightarrow>
             if is_cont b1
             then map_option ((#) ((n0 - 0xC0) * 64 + cont b1)) (utf8_decode r)
             else None
         | _ \<Rightarrow> None)
      else if 0xE0 \<le> n0 \<and> n0 \<le> 0xEF then
        (case bs of
           b1 # b2 # r \<Rightarrow>
             if is_cont b1 \<and> is_cont b2
                \<and> (n0 = 0xE0 \<longrightarrow> 0xA0 \<le> unat b1)
                \<and> (n0 = 0xED \<longrightarrow> unat b1 \<le> 0x9F)
             then map_option ((#) ((n0 - 0xE0) * 4096 + cont b1 * 64 + cont b2))
                    (utf8_decode r)
             else None
         | _ \<Rightarrow> None)
      else if 0xF0 \<le> n0 \<and> n0 \<le> 0xF4 then
        (case bs of
           b1 # b2 # b3 # r \<Rightarrow>
             if is_cont b1 \<and> is_cont b2 \<and> is_cont b3
                \<and> (n0 = 0xF0 \<longrightarrow> 0x90 \<le> unat b1)
                \<and> (n0 = 0xF4 \<longrightarrow> unat b1 \<le> 0x8F)
             then map_option
                    ((#) ((n0 - 0xF0) * 262144 + cont b1 * 4096 + cont b2 * 64 + cont b3))
                    (utf8_decode r)
             else None
         | _ \<Rightarrow> None)
      else None)"

text \<open>
  \<open>parse\<close> returns the timestamp and the row; \<open>None\<close> stands for the
  \<open>struct.error\<close> of \<open>unpack\<close>, the only exception that leaves the function. The
  six timestamp bytes are extended by two zero bytes and read as one 64-bit integer.
\<close>

definition parse :: "bytes \<Rightarrow> (nat \<times> row) option" where
  "parse msg =
     (case unpack_trade msg of
        None \<Rightarrow> None
      | Some temp \<Rightarrow>
          (let temptime = [0, 0] @ f1 temp;
               timestamp = be_uint temptime;
               stock = (case utf8_decode (strip (f5 temp)) of
                          Some s \<Rightarrow> s
                        | None \<Rightarrow> str_of ''N/A'');
               shares = f4 temp;
               price = of_int (int (f6 temp)) / 10000
           in Some (timestamp, (stock, shares, price))))"

subsection \<open>The flush: pandas\<close>

text \<open>
  \<open>DataFrame(self.data, columns = ["Stock", "Shares", "Price"])\<close> has one row per
  buffered trade; \<open>Total\<close> is the product of the columns \<open>Shares\<close> and \<open>Price\<close>.
\<close>

definition with_total :: "row list \<Rightarrow> (pystr \<times> nat \<times> rat \<times> rat) list" where
  "with_total rows =
     map (\<lambda>(stock, shares, price). (stock, shares, price, of_int (int shares) * price)) rows"

text \<open>
  \<open>groupby(panda["Stock"])["Shares", "Total"].sum()\<close>: one row per distinct stock, in
  ascending order of the key (\<open>sort=True\<close> is the default; Python orders strings
  lexicographically by code point), holding the sums of the two columns over the rows of
  that stock. (Selecting the two columns by a tuple is accepted by the pandas releases
  the script was written for; what later releases do with it is not modelled.)
\<close>

definition groupby_sum :: "(pystr \<times> nat \<times> rat \<times> rat) list \<Rightarrow> (pystr \<times> nat \<times> rat) list" where
  "groupby_sum frame =
     map (\<lambda>k. (k,
               sum_list (map (\<lambda>(stock, shares, price, tot). shares)
                             (filter (\<lambda>r. fst r = k) frame)),
               sum_list (map (\<lambda>(stock, shares, price, tot). tot)
                             (filter (\<lambda>r. fst r = k) frame))))
         (sort (remdups (map fst frame)))"

text \<open>
  \<open>panda["Total"] / panda["Shares"]\<close> divides a float column by an integer column. No
  exception is raised for a zero divisor: the quotient is NaN for 0 / 0 and an infinity
  otherwise.
\<close>

definition fdiv :: "rat \<Rightarrow> nat \<Rightarrow> float64" where
  "fdiv tot shares =
     (if shares \<noteq> 0 then Finite (tot / of_int (int shares))
      else if tot = 0 then NaN
      else if 0 < tot then PosInf else NegInf)"

text \<open>\<open>round(2)\<close>: to the nearest multiple of 1/100, half to even.\<close>

fun fround :: "nat \<Rightarrow> float64 \<Rightarrow> float64" where
  "fround n (Finite q) = Finite (of_int (round_half_even (q * 10 ^ n)) / 10 ^ n)"
| "fround n x = x"

text \<open>The columns \<open>Stock\<close> and \<open>VWAP\<close> after \<open>reset_index\<close>.\<close>

definition vwap_table :: "row list \<Rightarrow> (pystr \<times> float64) list" where
  "vwap_table rows =
     map (\<lambda>(stock, shares, tot). (stock, fround 2 (fdiv tot shares)))
         (groupby_sum (with_total rows))"

subsection \<open>process\_trade and check\_for\_trade\_msg\<close>

definition process_trade :: "int \<Rightarrow> parser \<Rightarrow> bytes \<Rightarrow> parser raises" where
  "process_trade utcoffset st msg =
     (case parse msg of
        None \<Rightarrow> Inl (StructError, st)
      | Some (timestamp, parsed) \<Rightarrow>
          (case py_int (convert_time utcoffset timestamp) of
             None \<Rightarrow> Inl (ValueError, st)
           | Some hour \<Rightarrow>
               (let st1 =
                      (case currentHour st of
                         None \<Rightarrow> st\<lparr>currentHour := Some hour\<rparr>
                       | Some cur \<Rightarrow>
                           if (cur + 1) mod 24 = hour
                           then st\<lparr>emitted := emitted st @ [(cur, vwap_table (data st))],
                                   data := [],
                                   currentHour := Some hour\<rparr>
                           else st)
                in Inr (st1\<lparr>data := data st1 @ [parsed]\<rparr>))))"

text \<open>
  The lookup \<open>self.msg_size_table[msg_type]\<close> raises \<open>KeyError\<close> for a type that is
  not in the table, before anything is read; the \<open>except KeyError: pass\<close> around the
  body makes the call return normally then.
\<close>

definition check_for_trade_msg :: "int \<Rightarrow> parser \<Rightarrow> bytes \<Rightarrow> parser raises" where
  "check_for_trade_msg utcoffset st msg_type =
     (case msg_size_table st msg_type of
        None \<Rightarrow> Inr st
      | Some msg_size \<Rightarrow>
          (case read_binary st msg_size of
             (msg, st1) \<Rightarrow>
               if msg_type = bytes_of ''P'' then process_trade utcoffset st1 msg
               else Inr st1))"

subsection \<open>The driver\<close>

definition NASDAQ_MSG_SIZES :: "bytes \<rightharpoonup> nat" where
  "NASDAQ_MSG_SIZES =
     map_of
       [(bytes_of ''S'', 11), (bytes_of ''R'', 38), (bytes_of ''H'', 24),
        (bytes_of ''Y'', 19), (bytes_of ''L'', 25), (bytes_of ''V'', 34),
        (bytes_of ''W'', 11), (bytes_of ''K'', 27), (bytes_of ''A'', 35),
        (bytes_of ''F'', 39), (bytes_of ''E'', 30), (bytes_of ''C'', 35),
        (bytes_of ''X'', 22), (bytes_of ''D'', 18), (bytes_of ''U'', 34),
        (bytes_of ''P'', 43), (bytes_of ''Q'', 39), (bytes_of ''B'', 18),
        (bytes_of ''I'', 49), (bytes_of ''N'', 19)]"

text \<open>
  The loop \<open>while(msg_type)\<close>: it runs as long as the last read returned a byte. Every
  round reads one byte more, so it ends.
\<close>

function main_loop :: "int \<Rightarrow> parser \<Rightarrow> bytes \<Rightarrow> parser raises" where
  "main_loop utcoffset st msg_type =
     (if msg_type \<noteq> [] then
        (case check_for_trade_msg utcoffset st msg_type of
           Inl e \<Rightarrow> Inl e
         | Inr st1 \<Rightarrow>
             (case read_binary_msg_type st1 of
                (msg_type', st2) \<Rightarrow> main_loop utcoffset st2 msg_type'))
      else Inr st)"
  by pat_completeness auto
termination
proof (relation "measure (\<lambda>(utcoffset, st, msg_type).
                   length (binary_data st) + (if msg_type = [] then 0 else 1))")
  show "wf (measure (\<lambda>(utcoffset, st, msg_type).
                   length (binary_data st) + (if msg_type = [] then 0 else 1)))"
    by simp
next
  fix utcoffset st msg_type st1 x msg_type' st2
  assume nonempty: "msg_type \<noteq> []"
    and c: "check_for_trade_msg utcoffset st msg_type = Inr st1"
    and r: "(msg_type', st2) = read_binary_msg_type st1"
  have "binary_data st' = binary_data st0"
    if "process_trade utcoffset st0 msg = Inr st'" for st0 st' msg
    using that
    by (auto simp: process_trade_def Let_def split: option.splits prod.splits if_splits)
  with c have "length (binary_data st1) \<le> length (binary_data st)"
    by (fastforce simp: check_for_trade_msg_def read_binary_def
          split: option.splits if_splits)
  with r nonempty
  show "((utcoffset, st2, msg_type'), (utcoffset, st, msg_type))
        \<in> measure (\<lambda>(utcoffset, st, msg_type).
                     length (binary_data st) + (if msg_type = [] then 0 else 1))"
    by (cases "binary_data st1") (auto simp: read_binary_msg_type_def)
qed

text \<open>
  The attributes of a \<open>Parser\<close> object: the four fields set by \<open>__init__\<close> and the
  methods of the class. Calling a method looks its name up first.
\<close>

definition Parser_attributes :: "string list" where
  "Parser_attributes =
     [''binary_data'', ''msg_size_table'', ''data'', ''currentHour'',
      ''__init__'', ''read_binary_msg_type'', ''read_binary'', ''close_binary'',
      ''check_for_trade_msg'', ''convert_time'', ''parse'', ''process_trade'']"

definition has_attribute :: "string \<Rightarrow> bool" where
  "has_attribute name = (name \<in> set Parser_attributes)"

text \<open>
  The block under \<open>if __name__ == '__main__'\<close>, on the decompressed contents of the
  file. A method \<open>save_excel\<close> would run on the closed parser; what it would do is not
  in the script, and the model returns the parser as it is in that branch.
\<close>

definition main :: "int \<Rightarrow> bytes \<Rightarrow> parser raises" where
  "main utcoffset contents =
     (case read_binary_msg_type (init NASDAQ_MSG_SIZES contents) of
        (msg_type, st1) \<Rightarrow>
          (case main_loop utcoffset st1 msg_type of
             Inl e \<Rightarrow> Inl e
           | Inr st2 \<Rightarrow>
               (let st3 = close_binary st2
                in if has_attribute ''save_excel'' then Inr st3
                   else Inl (AttributeError, st3))))"

subsection \<open>Example messages\<close>

text \<open>
  Bodies of trade messages as \<open>struct.pack('>4s6sQcI8sIQ', ...)\<close> lays them out, with
  zero locate, tracking, reference and match fields and the side \<open>B\<close>:
  100 AAPL at 10.0000 and 200 AAPL at 11.0000 in the hour after 09:00:00 (32400 and
  32400.000000001 seconds), one MSFT at 1.0000 at 10:00:00, no share of X at 5.0000 at
  23:00:00, and 7 shares at 1.2345 at 00:00:00 whose symbol starts with the byte FF.
\<close>

definition trade_aapl_100 :: bytes where
  "trade_aapl_100 =
     [0x00, 0x00, 0x00, 0x00, 0x1D, 0x77, 0xB6, 0x7D, 0xA0, 0x00,
      0x00, 0x00, 0x00, 0x00, 0x00, 0x00, 0x00, 0x00, 0x42,
      0x00, 0x00, 0x00, 0x64,
      0x41, 0x41, 0x50, 0x4C, 0x20, 0x20, 0x20, 0x20,
      0x00, 0x01, 0x86, 0xA0,
      0x00, 0x00, 0x00, 0x00, 0x00, 0x00, 0x00, 0x00]"

definition trade_aapl_200 :: bytes where
  "trade_aapl_200 =
     [0x00, 0x00, 0x00, 0x00, 0x1D, 0x77, 0xB6, 0x7D, 0xA0, 0x01,
      0x00, 0x00, 0x00, 0x00, 0x00, 0x00, 0x00, 0x00, 0x42,
      0x00, 0x00, 0x00, 0xC8,
      0x41, 0x41, 0x50, 0x4C, 0x20, 0x20, 0x20, 0x20,
      0x00, 0x01, 0xAD, 0xB0,
      0x00, 0x00, 0x00, 0x00, 0x00, 0x00, 0x00, 0x00]"

definition trade_msft :: bytes where
  "trade_msft =
     [0x00, 0x00, 0x00, 0x00, 0x20, 0xBD, 0xE7, 0x36, 0x40, 0x00,
      0x00, 0x00, 0x00, 0x00, 0x00, 0x00, 0x00, 0x00, 0x42,
      0x00, 0x00, 0x00, 0x01,
      0x4D, 0x53, 0x46, 0x54, 0x20, 0x20, 0x20, 0x20,
      0x00, 0x00, 0x27, 0x10,
      0x00, 0x00, 0x00, 0x00, 0x00, 0x00, 0x00, 0x00]"

definition trade_zero_shares :: bytes where
  "trade_zero_shares =
     [0x00, 0x00, 0x00, 0x00, 0x4B, 0x4E, 0x60, 0x96, 0x60, 0x00,
      0x00, 0x00, 0x00, 0x00, 0x00, 0x00, 0x00, 0x00, 0x42,
      0x00, 0x00, 0x00, 0x00,
      0x58, 0x20, 0x20, 0x20, 0x20, 0x20, 0x20, 0x20,
      0x00, 0x00, 0xC3, 0x50,
      0x00, 0x00, 0x00, 0x00, 0x00, 0x00, 0x00, 0x00]"

definition trade_bad_symbol :: bytes where
  "trade_bad_symbol =
     [0x00, 0x00, 0x00, 0x00, 0x00, 0x00, 0x00, 0x00, 0x00, 0x00,
      0x00, 0x00, 0x00, 0x00, 0x00, 0x00, 0x00, 0x00, 0x42,
      0x00, 0x00, 0x00, 0x07,
      0xFF, 0x20, 0x20, 0x20, 0x20, 0x20, 0x20, 0x20,
      0x00, 0x00, 0x30, 0x39,
      0x00, 0x00, 0x00, 0x00, 0x00, 0x00, 0x00, 0x00]"

section \<open>The hour of a trade\<close>

lemma py_int_strftime_H: "h < 100 \<Longrightarrow> py_int (strftime_H h) = Some h"
proof -
  assume "h < 100"
  then have "h div 10 \<le> 9" "h mod 10 \<le> 9"
    by presburger+
  then show ?thesis
    by (simp add: py_int_def strftime_H_def digit_char_def is_digit_def)
qed

lemma round_half_even_div_1000:
  "round_half_even (of_int n / 1000) =
     (if n mod 1000 < 500 then n div 1000
      else if 500 < n mod 1000 then n div 1000 + 1
      else if even (n div 1000) then n div 1000 else n div 1000 + 1)"
proof -
  have fl: "\<lfloor>(of_int n :: rat) / 1000\<rfloor> = n div 1000"
    using floor_divide_of_int_eq [of n 1000, where ?'a = rat] by simp
  have "(of_int n :: rat) = of_int (n div 1000 * 1000 + n mod 1000)"
    by simp
  then have fr: "(of_int n :: rat) / 1000 - of_int (n div 1000) = of_int (n mod 1000) / 1000"
    by (simp only: of_int_add of_int_mult) (simp add: field_simps)
  have lt: "(of_int (n mod 1000) / 1000 < (1 / 2 :: rat)) = (n mod 1000 < 500)"
    by (simp add: field_simps)
  have gt: "((1 / 2 :: rat) < of_int (n mod 1000) / 1000) = (500 < n mod 1000)"
    by (simp add: field_simps)
  show ?thesis
    unfolding round_half_even_def Let_def fl fr lt gt by simp
qed

text \<open>\<open>int(self.convert_time(timestamp))\<close> never raises: the string is two digits.\<close>

lemma py_int_convert_time:
  "py_int (convert_time utcoffset timestamp) =
     Some (nat (((round_half_even (of_int (int timestamp) / 1000) + utcoffset * 1000000)
                  div 3600000000) mod 24))"
proof -
  have "nat (x mod 24) < 100" for x :: int
    using pos_mod_bound [of 24 x] by linarith
  then show ?thesis
    by (simp add: convert_time_def Let_def py_int_strftime_H)
qed

lemma div_succ_same:
  fixes d c :: int
  assumes "0 < c" and "d mod c < c - 1"
  shows "(d + 1) div c = d div c"
proof (rule int_div_pos_eq)
  show "d + 1 = c * (d div c) + (d mod c + 1)"
    by simp
  show "0 \<le> d mod c + 1"
    using assms(1) pos_mod_sign [of c d] by linarith
  show "d mod c + 1 < c"
    using assms(2) by linarith
qed

text \<open>
  C3 (amended). The hour that \<open>process_trade\<close> derives is a function of the raw
  timestamp and of the UTC offset of the time zone the process runs in: it is the hour of
  the local time \<open>timestamp + utcoffset\<close>, that is the integer quotient of
  \<open>timestamp + utcoffset * 10^9\<close> nanoseconds by the \<open>3.6 * 10^12\<close> nanoseconds of
  an hour, modulo 24, for every timestamp that is not within the last 500 nanoseconds of
  a local hour (there the rounding to microseconds may carry into the next hour). With
  the offset fixed, two runs on the same input derive the same hours.
\<close>

theorem convert_time_local_hour:
  assumes "(int timestamp + utcoffset * 1000000000) mod 3600000000000 < 3600000000000 - 500"
  shows "py_int (convert_time utcoffset timestamp) =
           Some (nat (((int timestamp + utcoffset * 1000000000) div 3600000000000) mod 24))"
proof -
  define n where "n = int timestamp"
  define t where "t = n + utcoffset * 1000000000"
  define d where "d = t div 1000"
  define us where "us = round_half_even (of_int n / 1000)"
  have t_eq: "t = (n div 1000 + utcoffset * 1000000) * 1000 + n mod 1000"
    by (simp add: t_def algebra_simps)
  have d_eq: "d = n div 1000 + utcoffset * 1000000"
    unfolding d_def t_eq by simp
  have "t = n + 1000 * (utcoffset * 1000000)"
    by (simp add: t_def)
  then have m_eq: "t mod 1000 = n mod 1000"
    by (simp only: mod_mult_self2)
  have hour_d: "t div 3600000000000 = d div 3600000000"
    using zdiv_zmult2_eq [of 3600000000 t 1000] by (simp add: d_def)
  have "t mod 3600000000000 = 1000 * (d mod 3600000000) + t mod 1000"
    using zmod_zmult2_eq [of 3600000000 t 1000] by (simp add: d_def)
  with assms have bound: "1000 * (d mod 3600000000) + n mod 1000 < 3600000000000 - 500"
    by (simp add: t_def n_def m_eq [unfolded t_def n_def])
  have "(us + utcoffset * 1000000) div 3600000000 = d div 3600000000"
  proof (cases "us = n div 1000")
    case True
    then show ?thesis by (simp add: d_eq)
  next
    case False
    then have up: "us = n div 1000 + 1" and half: "500 \<le> n mod 1000"
      by (auto simp: us_def round_half_even_div_1000 split: if_splits)
    from bound half have "d mod 3600000000 < 3600000000 - 1"
      by linarith
    then have "(d + 1) div 3600000000 = d div 3600000000"
      by (intro div_succ_same) simp_all
    then show ?thesis
      by (simp add: up d_eq add.commute add.left_commute)
  qed
  then show ?thesis
    by (simp add: py_int_convert_time us_def [symmetric, unfolded n_def] hour_d [symmetric]
             t_def n_def us_def)
qed

text \<open>At offset 0 the trade stamped 32400 seconds after midnight falls in hour 9.\<close>

theorem convert_time_local_hour_witness:
  "(int 32400000000000 + 0 * 1000000000) mod 3600000000000 < 3600000000000 - 500
   \<and> py_int (convert_time 0 32400000000000) = Some 9"
  using convert_time_local_hour [of 32400000000000 0] by simp

text \<open>
  C3 as stated fails. The timestamp 0 is in hour 0 by integer division, and
  \<open>convert_time\<close> gives hour 0 in a process at UTC but hour 19 in a process five hours
  west of it: the hour depends on the environment. The timestamp 3599999999999, one
  nanosecond before 01:00:00, is in hour 0 by integer division and in hour 1 for
  \<open>convert_time\<close> at UTC.
\<close>

theorem convert_time_timezone_counterexample:
  "py_int (convert_time 0 0) = Some 0
   \<and> py_int (convert_time (- 18000) 0) = Some 19
   \<and> py_int (convert_time (- 18000) 0) \<noteq> Some (0 div 3600000000000)
   \<and> py_int (convert_time 0 3599999999999) = Some 1
   \<and> py_int (convert_time 0 3599999999999) \<noteq> Some (3599999999999 div 3600000000000)"
  using round_half_even_div_1000 [of 0] round_half_even_div_1000 [of 3599999999999]
  by (simp add: py_int_convert_time)

section \<open>The read loop\<close>

declare main_loop.simps [simp del]

lemma main_loop_end: "main_loop utcoffset st [] = Inr st"
  by (subst main_loop.simps) simp

lemma main_loop_step:
  "msg_type \<noteq> [] \<Longrightarrow>
     main_loop utcoffset st msg_type =
       (case check_for_trade_msg utcoffset st msg_type of
          Inl e \<Rightarrow> Inl e
        | Inr st1 \<Rightarrow>
            main_loop utcoffset (snd (read_binary_msg_type st1))
              (fst (read_binary_msg_type st1)))"
  by (subst main_loop.simps) (simp split: sum.splits prod.splits)

lemma NASDAQ_P: "NASDAQ_MSG_SIZES (bytes_of ''P'') = Some 43"
  by (simp add: NASDAQ_MSG_SIZES_def bytes_of_def)

lemma NASDAQ_Z: "NASDAQ_MSG_SIZES (bytes_of ''Z'') = None"
  by (simp add: NASDAQ_MSG_SIZES_def bytes_of_def)

lemma parse_trade_aapl_100:
  "parse trade_aapl_100 = Some (32400000000000, (str_of ''AAPL'', 100, 10))"
  by (simp add: trade_aapl_100_def parse_def unpack_trade_def be_uint_def strip_def
        is_space_def is_cont_def cont_def str_of_def Let_def)

lemma length_trade_aapl_100: "length trade_aapl_100 = 43"
  by (simp add: trade_aapl_100_def)

lemma hour_9: "py_int (convert_time 0 32400000000000) = Some 9"
  using round_half_even_div_1000 [of 32400000000000] by (simp add: py_int_convert_time)

lemma loop_trade_aapl_100:
  "main_loop 0 (init NASDAQ_MSG_SIZES trade_aapl_100) (bytes_of ''P'') =
     Inr \<lparr>binary_data = [], closed = False, msg_size_table = NASDAQ_MSG_SIZES,
          data = [(str_of ''AAPL'', 100, 10)], currentHour = Some 9, emitted = []\<rparr>"
  by (simp add: init_def read_binary_msg_type_def read_binary_def
        main_loop_step main_loop_end check_for_trade_msg_def
        NASDAQ_P [unfolded bytes_of_def, simplified]
        bytes_of_def length_trade_aapl_100 process_trade_def
        parse_trade_aapl_100 hour_9 Let_def)

lemma not_has_save_excel: "\<not> has_attribute ''save_excel''"
  by (simp add: has_attribute_def Parser_attributes_def)

lemma main_unfold:
  "main utcoffset contents =
     (case main_loop utcoffset (init NASDAQ_MSG_SIZES (drop 1 contents)) (take 1 contents) of
        Inl e \<Rightarrow> Inl e
      | Inr st \<Rightarrow> Inl (AttributeError, close_binary st))"
  by (simp add: main_def not_has_save_excel read_binary_msg_type_def init_def Let_def
        split: sum.splits)

subsection \<open>A message type that is not in the table\<close>

text \<open>
  C1 (amended). When the type that was read is not in the table, \<open>check_for_trade_msg\<close>
  swallows the \<open>KeyError\<close> of the lookup: it signals no error, reads no byte and leaves
  the parser as it was, and the read loop goes on with the next byte of the stream as
  the next message type.
\<close>

theorem unknown_type_is_skipped:
  assumes "msg_size_table st msg_type = None"
  shows "check_for_trade_msg utcoffset st msg_type = Inr st
         \<and> (msg_type \<noteq> [] \<longrightarrow>
              main_loop utcoffset st msg_type =
                main_loop utcoffset (snd (read_binary_msg_type st))
                  (fst (read_binary_msg_type st)))"
  using assms by (simp add: check_for_trade_msg_def main_loop_step)

text \<open>The type \<open>Z\<close> is not in the table; after it the loop frames the trade that follows.\<close>

theorem unknown_type_is_skipped_witness:
  "msg_size_table (init NASDAQ_MSG_SIZES (bytes_of ''P'' @ trade_aapl_100)) (bytes_of ''Z'') = None
   \<and> bytes_of ''Z'' \<noteq> []
   \<and> check_for_trade_msg 0 (init NASDAQ_MSG_SIZES (bytes_of ''P'' @ trade_aapl_100))
         (bytes_of ''Z'')
       = Inr (init NASDAQ_MSG_SIZES (bytes_of ''P'' @ trade_aapl_100))
   \<and> main_loop 0 (init NASDAQ_MSG_SIZES (bytes_of ''P'' @ trade_aapl_100)) (bytes_of ''Z'')
       = main_loop 0 (init NASDAQ_MSG_SIZES trade_aapl_100) (bytes_of ''P'')"
  using unknown_type_is_skipped
          [of "init NASDAQ_MSG_SIZES (bytes_of ''P'' @ trade_aapl_100)" "bytes_of ''Z''" 0]
  by (simp add: init_def NASDAQ_Z read_binary_msg_type_def) (simp add: bytes_of_def)

text \<open>
  C1 as stated fails. On the stream \<open>Z\<close>, \<open>P\<close>, trade body, the run does not stop at
  \<open>Z\<close> with \<open>UnknownMessageTypeError\<close>: the trade after it is framed and buffered,
  and the run ends with the \<open>AttributeError\<close> of \<open>save_excel\<close>.
\<close>

theorem unknown_type_counterexample:
  "main 0 (bytes_of ''Z'' @ bytes_of ''P'' @ trade_aapl_100) =
     Inl (AttributeError,
          \<lparr>binary_data = [], closed = True, msg_size_table = NASDAQ_MSG_SIZES,
           data = [(str_of ''AAPL'', 100, 10)], currentHour = Some 9, emitted = []\<rparr>)"
  by (simp add: main_def init_def read_binary_msg_type_def read_binary_def
        main_loop_step main_loop_end check_for_trade_msg_def
        NASDAQ_Z [unfolded bytes_of_def, simplified]
        NASDAQ_P [unfolded bytes_of_def, simplified]
        bytes_of_def length_trade_aapl_100 process_trade_def
        parse_trade_aapl_100 hour_9 close_binary_def has_attribute_def
        Parser_attributes_def Let_def)

subsection \<open>A stream that ends inside a trade body\<close>

lemma parse_wrong_length: "length msg \<noteq> 43 \<Longrightarrow> parse msg = None"
  by (simp add: parse_def unpack_trade_def)

text \<open>
  C7 (amended). When the stream ends inside the body of a message of type \<open>P\<close>, whose
  declared length is 43, the framer does not notice: it hands the short body to
  \<open>process_trade\<close>, where \<open>struct.unpack\<close> raises \<open>struct.error\<close>. Nothing catches
  it, so the loop stops with that exception; the buffer of trades, the current hour and
  what was written out are as before the message, and no part of the short body is
  buffered.
\<close>

theorem truncated_trade_body:
  assumes "msg_size_table st (bytes_of ''P'') = Some 43"
    and "length (binary_data st) < 43"
  shows "check_for_trade_msg utcoffset st (bytes_of ''P'')
           = Inl (StructError, st\<lparr>binary_data := []\<rparr>)
         \<and> main_loop utcoffset st (bytes_of ''P'')
           = Inl (StructError, st\<lparr>binary_data := []\<rparr>)"
proof -
  from assms(2) have "parse (take 43 (binary_data st)) = None"
    by (intro parse_wrong_length) simp
  with assms have c: "check_for_trade_msg utcoffset st (bytes_of ''P'')
           = Inl (StructError, st\<lparr>binary_data := []\<rparr>)"
    by (simp add: check_for_trade_msg_def read_binary_def process_trade_def)
  have "bytes_of ''P'' \<noteq> []"
    by (simp add: bytes_of_def)
  with c show ?thesis
    by (simp add: main_loop_step)
qed

theorem truncated_trade_body_witness:
  "msg_size_table (init NASDAQ_MSG_SIZES (take 10 trade_aapl_100)) (bytes_of ''P'') = Some 43
   \<and> length (binary_data (init NASDAQ_MSG_SIZES (take 10 trade_aapl_100))) < 43
   \<and> main_loop 0 (init NASDAQ_MSG_SIZES (take 10 trade_aapl_100)) (bytes_of ''P'')
       = Inl (StructError, init NASDAQ_MSG_SIZES [])"
  using truncated_trade_body [of "init NASDAQ_MSG_SIZES (take 10 trade_aapl_100)" 0]
  by (simp add: init_def NASDAQ_P)

text \<open>
  C7 as stated fails in the error it names. On \<open>P\<close> followed by the first ten bytes of
  a trade body the run ends with \<open>struct.error\<close>, raised by the decoder, and not with
  \<open>TruncatedStreamError\<close>; nothing is buffered.
\<close>

theorem truncated_trade_body_counterexample:
  "main 0 (bytes_of ''P'' @ take 10 trade_aapl_100)
     = Inl (StructError, init NASDAQ_MSG_SIZES [])
   \<and> main 0 (bytes_of ''P'' @ take 10 trade_aapl_100)
     \<noteq> Inl (TruncatedStreamError, init NASDAQ_MSG_SIZES [])"
  by (simp add: main_def init_def read_binary_msg_type_def read_binary_def
        main_loop_step check_for_trade_msg_def NASDAQ_P [unfolded bytes_of_def, simplified]
        bytes_of_def process_trade_def parse_wrong_length trade_aapl_100_def)

subsection \<open>The end of the run\<close>

text \<open>
  C10. Whenever the read loop comes to the end of the stream, the driver closes the byte
  source and then calls \<open>save_excel\<close>, which is not among the attributes of a
  \<open>Parser\<close>: the run ends by raising \<open>AttributeError\<close>, on the closed parser the loop
  left behind. No run returns normally.
\<close>

theorem main_raises_AttributeError:
  assumes "main_loop utcoffset (init NASDAQ_MSG_SIZES (drop 1 contents)) (take 1 contents)
             = Inr st"
  shows "\<not> has_attribute ''save_excel''
         \<and> main utcoffset contents = Inl (AttributeError, close_binary st)
         \<and> closed (close_binary st)
         \<and> (\<forall>st'. main utcoffset contents \<noteq> Inr st')"
  using assms by (simp add: main_unfold not_has_save_excel close_binary_def)

theorem main_raises_AttributeError_witness:
  "main_loop 0 (init NASDAQ_MSG_SIZES (drop 1 (bytes_of ''P'' @ trade_aapl_100)))
       (take 1 (bytes_of ''P'' @ trade_aapl_100))
     = Inr \<lparr>binary_data = [], closed = False, msg_size_table = NASDAQ_MSG_SIZES,
          data = [(str_of ''AAPL'', 100, 10)], currentHour = Some 9, emitted = []\<rparr>
   \<and> main 0 (bytes_of ''P'' @ trade_aapl_100)
     = Inl (AttributeError,
            \<lparr>binary_data = [], closed = True, msg_size_table = NASDAQ_MSG_SIZES,
             data = [(str_of ''AAPL'', 100, 10)], currentHour = Some 9, emitted = []\<rparr>)"
proof -
  have l: "main_loop 0 (init NASDAQ_MSG_SIZES (drop 1 (bytes_of ''P'' @ trade_aapl_100)))
       (take 1 (bytes_of ''P'' @ trade_aapl_100))
     = Inr \<lparr>binary_data = [], closed = False, msg_size_table = NASDAQ_MSG_SIZES,
          data = [(str_of ''AAPL'', 100, 10)], currentHour = Some 9, emitted = []\<rparr>"
    using loop_trade_aapl_100 by (simp add: bytes_of_def)
  from main_raises_AttributeError [OF l] l show ?thesis
    by (simp add: close_binary_def)
qed

section \<open>The aggregator\<close>

lemma parse_trade_bad_symbol:
  "parse trade_bad_symbol = Some (0, (str_of ''N/A'', 7, 12345 / 10000))"
  by (simp add: trade_bad_symbol_def parse_def unpack_trade_def be_uint_def strip_def
        is_space_def is_cont_def cont_def str_of_def Let_def)

lemma hour_0: "py_int (convert_time 0 0) = Some 0"
  using round_half_even_div_1000 [of 0] by (simp add: py_int_convert_time)

subsection \<open>The flush at the next hour\<close>



subsection \<open>A symbol that is not valid text\<close>

lemma be_uint_zero_prefix: "be_uint ([0, 0] @ bs) = be_uint bs"
  by (simp add: be_uint_def)

text \<open>What \<open>parse\<close> returns for a body of the right length, field by field.\<close>

lemma parse_fields:
  assumes "length msg = 43"
  shows "parse msg =
           Some (be_uint (take 6 (drop 4 msg)),
                 (case utf8_decode (strip (take 8 (drop 23 msg))) of
                    Some s \<Rightarrow> s
                  | None \<Rightarrow> str_of ''N/A''),
                 be_uint (take 4 (drop 19 msg)),
                 of_int (int (be_uint (take 4 (drop 31 msg)))) / 10000)"
  using assms
  by (simp add: parse_def unpack_trade_def Let_def be_uint_zero_prefix del: append.simps)

text \<open>
  C8. For a trade body of 43 bytes whose symbol field, stripped of whitespace, is not
  valid UTF-8, \<open>parse\<close> does not raise: the stock is the sentinel \<open>N/A\<close>, and the
  timestamp, the shares and the price are decoded from their bytes as for any other
  body. \<open>process_trade\<close> does not raise either, and the record under the sentinel is
  the last one of the buffer afterwards.
\<close>

theorem undecodable_symbol:
  assumes "length msg = 43"
    and "utf8_decode (strip (take 8 (drop 23 msg))) = None"
  shows "parse msg =
           Some (be_uint (take 6 (drop 4 msg)),
                 str_of ''N/A'',
                 be_uint (take 4 (drop 19 msg)),
                 of_int (int (be_uint (take 4 (drop 31 msg)))) / 10000)
         \<and> (\<exists>st'. process_trade utcoffset st msg = Inr st'
                \<and> last (data st') =
                    (str_of ''N/A'',
                     be_uint (take 4 (drop 19 msg)),
                     of_int (int (be_uint (take 4 (drop 31 msg)))) / 10000))"
  using assms
  by (simp add: parse_fields process_trade_def py_int_convert_time Let_def split: option.splits)

theorem undecodable_symbol_witness:
  "length trade_bad_symbol = 43
   \<and> utf8_decode (strip (take 8 (drop 23 trade_bad_symbol))) = None
   \<and> parse trade_bad_symbol = Some (0, str_of ''N/A'', 7, 12345 / 10000)"
proof -
  have l: "length trade_bad_symbol = 43"
    by (simp add: trade_bad_symbol_def)
  have u: "utf8_decode (strip (take 8 (drop 23 trade_bad_symbol))) = None"
    by (simp add: trade_bad_symbol_def strip_def is_space_def)
  from undecodable_symbol [OF l u, of 0 "init NASDAQ_MSG_SIZES []"] l u show ?thesis
    by (simp add: trade_bad_symbol_def be_uint_def)
qed

subsection \<open>The table of volume weighted average prices\<close>

text \<open>
  The table has one row per stock of the buffer, in ascending order of the stock; the
  row holds the rounded quotient of the two sums over the records of that stock.
\<close>

lemma vwap_table_keys:
  "vwap_table rows =
     map (\<lambda>k. (k, fround 2
                 (fdiv (\<Sum>r\<leftarrow>filter (\<lambda>r. fst r = k) rows. of_int (int (fst (snd r))) * snd (snd r))
                       (\<Sum>r\<leftarrow>filter (\<lambda>r. fst r = k) rows. fst (snd r)))))
         (sort (remdups (map fst rows)))"
  by (simp add: vwap_table_def groupby_sum_def with_total_def filter_map o_def
        case_prod_beta)



lemma vwap_aapl:
  "vwap_table [(str_of ''AAPL'', 100, 10), (str_of ''AAPL'', 200, 11)] =
     [(str_of ''AAPL'', Finite (1067 / 100))]"
proof -
  have "\<lfloor>(3200 :: rat) / 3\<rfloor> = 1066"
    by (rule floor_unique) simp_all
  then have "round_half_even (3200 / 3) = 1067"
    by (simp add: round_half_even_def Let_def)
  then show ?thesis
    by (simp add: vwap_table_keys fdiv_def)
qed

lemma vwap_zero:
  "vwap_table [(str_of ''X'', 0, 5)] = [(str_of ''X'', NaN)]"
  by (simp add: vwap_table_keys fdiv_def)

text \<open>The example messages, decoded, and their hours in a process at UTC.\<close>

lemma parse_trade_aapl_200:
  "parse trade_aapl_200 = Some (32400000000001, (str_of ''AAPL'', 200, 11))"
  by (simp add: trade_aapl_200_def parse_def unpack_trade_def be_uint_def strip_def
        is_space_def is_cont_def cont_def str_of_def Let_def)

lemma parse_trade_msft:
  "parse trade_msft = Some (36000000000000, (str_of ''MSFT'', 1, 1))"
  by (simp add: trade_msft_def parse_def unpack_trade_def be_uint_def strip_def
        is_space_def is_cont_def cont_def str_of_def Let_def)

lemma parse_trade_zero_shares:
  "parse trade_zero_shares = Some (82800000000000, (str_of ''X'', 0, 5))"
  by (simp add: trade_zero_shares_def parse_def unpack_trade_def be_uint_def strip_def
        is_space_def is_cont_def cont_def str_of_def Let_def)

lemma length_trades:
  "length trade_aapl_200 = 43" "length trade_msft = 43"
  "length trade_zero_shares = 43" "length trade_bad_symbol = 43"
  by (simp_all add: trade_aapl_200_def trade_msft_def trade_zero_shares_def
        trade_bad_symbol_def)

lemma hour_9_later: "py_int (convert_time 0 32400000000001) = Some 9"
  using round_half_even_div_1000 [of 32400000000001] by (simp add: py_int_convert_time)

lemma hour_10: "py_int (convert_time 0 36000000000000) = Some 10"
  using round_half_even_div_1000 [of 36000000000000] by (simp add: py_int_convert_time)

lemma hour_23: "py_int (convert_time 0 82800000000000) = Some 23"
  using round_half_even_div_1000 [of 82800000000000] by (simp add: py_int_convert_time)

lemma loop_scenario:
  assumes "tbl (bytes_of ''P'') = Some 43"
  shows "main_loop 0
           (init tbl (trade_aapl_100 @ bytes_of ''P'' @ trade_aapl_200
                      @ bytes_of ''P'' @ trade_msft))
           (bytes_of ''P'') =
         Inr \<lparr>binary_data = [], closed = False, msg_size_table = tbl,
              data = [(str_of ''MSFT'', 1, 1)], currentHour = Some 10,
              emitted = [(9, [(str_of ''AAPL'', Finite (1067 / 100))])]\<rparr>"
proof -
  have p: "bytes_of ''P'' \<noteq> []" "tbl [0x50] = Some 43"
    using assms by (simp_all add: bytes_of_def)
  show ?thesis
    by (simp add: init_def read_binary_msg_type_def read_binary_def
        main_loop_step main_loop_end check_for_trade_msg_def p assms
        length_trade_aapl_100 length_trades process_trade_def
        parse_trade_aapl_100 parse_trade_aapl_200 parse_trade_msft
        hour_9 hour_9_later hour_10 vwap_aapl Let_def)
      (simp add: bytes_of_def main_loop_step main_loop_end check_for_trade_msg_def p
        read_binary_msg_type_def read_binary_def length_trade_aapl_100 length_trades
        process_trade_def parse_trade_aapl_100 parse_trade_aapl_200 parse_trade_msft
        hour_9 hour_9_later hour_10 vwap_aapl Let_def)
qed



subsection \<open>The order of the records in the buffer\<close>

text \<open>
  In the exact arithmetic of this model the table depends only on which records are in
  the buffer, not on their order: the keys are sorted and the sums are sums over
  multisets. The script adds 64-bit floats, whose sum can depend on the order of the
  summands in the last bit, and with it a price that lies on the boundary between two
  roundings; this lemma says nothing about that.
\<close>

lemma sum_list_filter_mset:
  fixes f :: "'a \<Rightarrow> 'b :: comm_monoid_add"
  shows "(\<Sum>r\<leftarrow>filter P xs. f r) = sum_mset (image_mset f (filter_mset P (mset xs)))"
  by (simp flip: sum_mset_sum_list)

lemma vwap_table_reorder_exact:
  assumes "mset rows = mset rows'"
  shows "vwap_table rows = vwap_table rows'"
proof -
  have "set (map fst rows) = set (map fst rows')"
    using assms by (metis mset_map set_mset_mset)
  then have "sort (remdups (map fst rows)) = sort (remdups (map fst rows'))"
    by (simp only: sorted_list_of_set_sort_remdups [symmetric])
  then show ?thesis
    by (simp add: vwap_table_keys sum_list_filter_mset assms)
qed

subsection \<open>A group whose shares sum to zero\<close>

lemma sum_list_notional_zero:
  assumes "(\<Sum>r\<leftarrow>xs. fst (snd r)) = (0 :: nat)"
  shows "(\<Sum>r\<leftarrow>xs. of_int (int (fst (snd r))) * snd (snd r)) = (0 :: rat)"
  using assms by (induction xs) auto

text \<open>
  C6 (amended). The computation has no guard against a division by zero: the column of
  the summed totals is divided by the column of the summed shares as it is. No exception
  is raised. A stock whose buffered shares sum to zero gets NaN as its price (0.0 / 0),
  every other stock gets a finite one, and no price is infinite.
\<close>

theorem vwap_division_unguarded:
  assumes "(stock, v) \<in> set (vwap_table rows)"
  shows "(v = NaN \<longleftrightarrow> (\<Sum>r\<leftarrow>filter (\<lambda>r. fst r = stock) rows. fst (snd r)) = 0)
         \<and> v \<noteq> PosInf \<and> v \<noteq> NegInf"
proof -
  from assms have
    v: "v = fround 2
             (fdiv (\<Sum>r\<leftarrow>filter (\<lambda>r. fst r = stock) rows.
                       of_int (int (fst (snd r))) * snd (snd r))
                   (\<Sum>r\<leftarrow>filter (\<lambda>r. fst r = stock) rows. fst (snd r)))"
    by (auto simp: vwap_table_keys)
  show ?thesis
  proof (cases "(\<Sum>r\<leftarrow>filter (\<lambda>r. fst r = stock) rows. fst (snd r)) = 0")
    case True
    with sum_list_notional_zero [OF True] v show ?thesis
      by (simp add: fdiv_def)
  next
    case False
    with v show ?thesis
      by (simp add: fdiv_def)
  qed
qed

theorem vwap_division_unguarded_witness:
  "(str_of ''X'', NaN) \<in> set (vwap_table [(str_of ''X'', 0, 5)])
   \<and> (\<Sum>r\<leftarrow>filter (\<lambda>r. fst r = str_of ''X'') [(str_of ''X'', 0, 5 :: rat)]. fst (snd r))
       = (0 :: nat)"
  using vwap_division_unguarded [of "str_of ''X''" NaN "[(str_of ''X'', 0, 5)]"]
  by (simp add: vwap_zero)

text \<open>
  C6 as stated fails. A trade of no share of X in hour 23, followed by a trade in
  hour 0, flushes a bucket whose only group has zero shares: the division is carried
  out with the divisor zero and the row written out for X holds NaN.
\<close>

theorem vwap_division_counterexample:
  "main 0 (bytes_of ''P'' @ trade_zero_shares @ bytes_of ''P'' @ trade_bad_symbol) =
     Inl (AttributeError,
          \<lparr>binary_data = [], closed = True, msg_size_table = NASDAQ_MSG_SIZES,
           data = [(str_of ''N/A'', 7, 12345 / 10000)], currentHour = Some 0,
           emitted = [(23, [(str_of ''X'', NaN)])]\<rparr>)"
  by (simp add: main_unfold init_def read_binary_msg_type_def read_binary_def
        main_loop_step main_loop_end check_for_trade_msg_def
        NASDAQ_P [unfolded bytes_of_def, simplified] bytes_of_def
        length_trades process_trade_def parse_trade_zero_shares parse_trade_bad_symbol
        hour_23 hour_0 vwap_zero close_binary_def Let_def)

subsection \<open>The bucket that is open when the stream ends\<close>

text \<open>
  Once a trade was processed the buffer is not empty: the bucket of the current hour
  holds at least the last trade.
\<close>

lemma process_trade_data: "process_trade utcoffset st msg = Inr st' \<Longrightarrow> data st' \<noteq> []"
  by (auto simp: process_trade_def Let_def split: option.splits prod.splits if_splits)

lemma check_for_trade_msg_bucket:
  assumes "check_for_trade_msg utcoffset st msg_type = Inr st'"
    and "currentHour st \<noteq> None \<longrightarrow> data st \<noteq> []"
  shows "currentHour st' \<noteq> None \<longrightarrow> data st' \<noteq> []"
  using assms
  by (auto simp: check_for_trade_msg_def read_binary_def
           dest: process_trade_data split: option.splits if_splits)

lemma main_loop_bucket:
  "main_loop utcoffset st msg_type = Inr st' \<Longrightarrow>
   (currentHour st \<noteq> None \<longrightarrow> data st \<noteq> []) \<Longrightarrow>
   currentHour st' \<noteq> None \<longrightarrow> data st' \<noteq> []"
proof (induction utcoffset st msg_type rule: main_loop.induct)
  case (1 utcoffset st msg_type)
  show ?case
  proof (cases "msg_type = []")
    case True
    with "1.prems" show ?thesis
      by (simp add: main_loop_end)
  next
    case False
    with "1.prems"(1) obtain st1 where
      c: "check_for_trade_msg utcoffset st msg_type = Inr st1"
      and l: "main_loop utcoffset (snd (read_binary_msg_type st1))
                (fst (read_binary_msg_type st1)) = Inr st'"
      by (auto simp: main_loop_step split: sum.splits)
    from check_for_trade_msg_bucket [OF c "1.prems"(2)]
    have "currentHour (snd (read_binary_msg_type st1)) \<noteq> None \<longrightarrow>
            data (snd (read_binary_msg_type st1)) \<noteq> []"
      by (simp add: read_binary_msg_type_def)
    with "1.IH" [OF False c prod.collapse l] show ?thesis
      by simp
  qed
qed

text \<open>
  C5. When the read loop comes to the end of the stream, the run does nothing more with
  the aggregator: what was written out, the buffer and the current hour are those the
  loop left behind, and the bucket that is open then, which is not empty once a trade
  was seen, is never turned into a table. Nothing in the script flushes it.
\<close>

theorem final_bucket_not_flushed:
  assumes "main_loop utcoffset (init NASDAQ_MSG_SIZES (drop 1 contents)) (take 1 contents)
             = Inr st"
  shows "main utcoffset contents = Inl (AttributeError, close_binary st)
         \<and> emitted (close_binary st) = emitted st
         \<and> data (close_binary st) = data st
         \<and> currentHour (close_binary st) = currentHour st
         \<and> (currentHour st \<noteq> None \<longrightarrow> data st \<noteq> [])"
proof -
  have "currentHour st \<noteq> None \<longrightarrow> data st \<noteq> []"
    using main_loop_bucket [OF assms] by (simp add: init_def)
  with assms show ?thesis
    by (simp add: main_unfold close_binary_def)
qed

text \<open>
  After two trades in hour 9 and one in hour 10 the table of hour 9 was written out; the
  trade of hour 10 is still in the buffer when the run ends, and no table of hour 10
  exists.
\<close>

theorem final_bucket_not_flushed_witness:
  "main_loop 0
     (init NASDAQ_MSG_SIZES
        (drop 1 (bytes_of ''P'' @ trade_aapl_100 @ bytes_of ''P'' @ trade_aapl_200
                 @ bytes_of ''P'' @ trade_msft)))
     (take 1 (bytes_of ''P'' @ trade_aapl_100 @ bytes_of ''P'' @ trade_aapl_200
              @ bytes_of ''P'' @ trade_msft))
     = Inr \<lparr>binary_data = [], closed = False, msg_size_table = NASDAQ_MSG_SIZES,
            data = [(str_of ''MSFT'', 1, 1)], currentHour = Some 10,
            emitted = [(9, [(str_of ''AAPL'', Finite (1067 / 100))])]\<rparr>
   \<and> main 0 (bytes_of ''P'' @ trade_aapl_100 @ bytes_of ''P'' @ trade_aapl_200
             @ bytes_of ''P'' @ trade_msft)
     = Inl (AttributeError,
            \<lparr>binary_data = [], closed = True, msg_size_table = NASDAQ_MSG_SIZES,
             data = [(str_of ''MSFT'', 1, 1)], currentHour = Some 10,
             emitted = [(9, [(str_of ''AAPL'', Finite (1067 / 100))])]\<rparr>)"
proof -
  have l: "main_loop 0
     (init NASDAQ_MSG_SIZES
        (drop 1 (bytes_of ''P'' @ trade_aapl_100 @ bytes_of ''P'' @ trade_aapl_200
                 @ bytes_of ''P'' @ trade_msft)))
     (take 1 (bytes_of ''P'' @ trade_aapl_100 @ bytes_of ''P'' @ trade_aapl_200
              @ bytes_of ''P'' @ trade_msft))
     = Inr \<lparr>binary_data = [], closed = False, msg_size_table = NASDAQ_MSG_SIZES,
            data = [(str_of ''MSFT'', 1, 1)], currentHour = Some 10,
            emitted = [(9, [(str_of ''AAPL'', Finite (1067 / 100))])]\<rparr>"
    using loop_scenario [of NASDAQ_MSG_SIZES] NASDAQ_P by (simp add: bytes_of_def)
  from final_bucket_not_flushed [OF l] l show ?thesis
    by (simp add: close_binary_def)
qed

end
